theory Spec2Isabelle
  imports Main "HOL-Library.Code_Target_Nat"
begin

section \<open>Python values\<close>

text \<open>
  A Python \<^verbatim>\<open>str\<close> is a sequence of Unicode code points, and \<^verbatim>\<open>len\<close>, slicing and
  \<^verbatim>\<open>in\<close> count code points. A text is therefore a list of code points (natural
  numbers); \<open>S\<close> turns an ASCII literal into such a text.
\<close>

type_synonym pystr = "nat list"

definition S :: "string \<Rightarrow> pystr" where
  "S cs = map of_char cs"

text \<open>
  A float that came out of a JSON numeral is kept as its decimal reading
  \<open>(sign, digits, exponent of ten)\<close>; the three special floats are separate.
  The only thing the service asks of a float is its truth value.
\<close>

datatype pyfloat = FDec bool nat int | FNaN | FInf bool

datatype pyval =
    PNone
  | PBool bool
  | PInt int
  | PFloat pyfloat
  | PStr pystr
  | PList "pyval list"
  | PTuple "pyval list"
  | PDict "(pystr \<times> pyval) list"
  | PObj "(pystr \<times> pyval option) list"

text \<open>
  \<open>PDict\<close> is a dictionary with string keys, as an association list read by
  \<open>map_of\<close>. \<open>PObj\<close> is any other object, given by its attributes: an attribute that
  is listed with \<open>Some v\<close> reads as \<open>v\<close>, one listed with \<open>None\<close> raises when it is
  read, and one that is not listed does not exist.
\<close>

text \<open>
  Parts of the Python installation that the service calls and that are tables or
  formatting routines of the interpreter, not code of the service: the Unicode name
  table behind \<^verbatim>\<open>\N{...}\<close>, the character-reference substitution of
  \<^verbatim>\<open>html.unescape\<close>, \<^verbatim>\<open>mimetypes.guess_type\<close> and \<^verbatim>\<open>str()\<close> of a value that
  is not a string. Every function below takes them as a parameter.
\<close>

text \<open>
  What \<^verbatim>\<open>mimetypes.guess_type(url)\<close> does: it returns a type or \<^verbatim>\<open>None\<close>, or it
  raises the \<^verbatim>\<open>ValueError\<close> of \<^verbatim>\<open>urllib.parse.urlparse\<close> on a URL that cannot be
  split.
\<close>

datatype guess = GuessRaises | Guess "pystr option"

record pylib =
  ucd_lookup :: "pystr \<Rightarrow> nat option"
  charref_sub :: "pystr \<Rightarrow> pystr"
  guess_type :: "pystr \<Rightarrow> guess"
  builtin_str :: "pyval \<Rightarrow> pystr"

text \<open>\<^verbatim>\<open>str(x)\<close>: a string is returned as it is.\<close>

definition py_str :: "pylib \<Rightarrow> pyval \<Rightarrow> pystr" where
  "py_str L v = (case v of PStr s \<Rightarrow> s | _ \<Rightarrow> builtin_str L v)"

text \<open>
  \<^verbatim>\<open>float(lexeme) != 0.0\<close>: a decimal \<open>m * 10^e\<close> becomes the zero double exactly when
  it is at most \<open>2^-1075\<close>, half of the smallest subnormal.
\<close>

fun float_nonzero :: "pyfloat \<Rightarrow> bool" where
  "float_nonzero (FDec neg m e) =
     (if 0 \<le> e then m \<noteq> 0 else (10::int) ^ nat (- e) < int m * 2 ^ 1075)"
| "float_nonzero FNaN = True"
| "float_nonzero (FInf neg) = True"

text \<open>\<^verbatim>\<open>bool(x)\<close>. An object without \<^verbatim>\<open>__bool__\<close> and \<^verbatim>\<open>__len__\<close> is true.\<close>

fun py_bool :: "pyval \<Rightarrow> bool" where
  "py_bool PNone = False"
| "py_bool (PBool b) = b"
| "py_bool (PInt i) = (i \<noteq> 0)"
| "py_bool (PFloat f) = float_nonzero f"
| "py_bool (PStr s) = (s \<noteq> [])"
| "py_bool (PList xs) = (xs \<noteq> [])"
| "py_bool (PTuple xs) = (xs \<noteq> [])"
| "py_bool (PDict d) = (d \<noteq> [])"
| "py_bool (PObj a) = True"

text \<open>\<^verbatim>\<open>d.get(k, default)\<close>.\<close>

definition dict_get :: "(pystr \<times> pyval) list \<Rightarrow> pystr \<Rightarrow> pyval \<Rightarrow> pyval" where
  "dict_get d k dflt = (case map_of d k of None \<Rightarrow> dflt | Some v \<Rightarrow> v)"

section \<open>The effective tag set\<close>

text \<open>
  \<^verbatim>\<open>allowed_tags = [t for t in (req.allowedTags or PREDEFINED_TAGS) if t in PREDEFINED_TAGS]\<close>,
  then \<^verbatim>\<open>if not allowed_tags: allowed_tags = PREDEFINED_TAGS\<close>.
\<close>

definition effective_tags :: "pystr list \<Rightarrow> pystr list option \<Rightarrow> pystr list" where
  "effective_tags PREDEFINED_TAGS allowedTags =
     (let requested = (case allowedTags of
                         None \<Rightarrow> PREDEFINED_TAGS
                       | Some ts \<Rightarrow> if ts = [] then PREDEFINED_TAGS else ts);
          allowed_tags = filter (\<lambda>t. t \<in> set PREDEFINED_TAGS) requested
      in if allowed_tags = [] then PREDEFINED_TAGS else allowed_tags)"

section \<open>The decision sanitizer\<close>

text \<open>\<^verbatim>\<open>isinstance(t, str) and t in allowed_tags\<close>.\<close>

fun tag_ok :: "pystr list \<Rightarrow> pyval \<Rightarrow> bool" where
  "tag_ok allowed_tags (PStr s) = (s \<in> set allowed_tags)"
| "tag_ok allowed_tags v = False"

text \<open>\<^verbatim>\<open>if not isinstance(flags_val, dict): flags_val = {}\<close>.\<close>

fun as_dict :: "pyval \<Rightarrow> (pystr \<times> pyval) list" where
  "as_dict (PDict d) = d"
| "as_dict v = []"

text \<open>\<^verbatim>\<open>if not isinstance(suggested_raw, list): suggested_raw = []\<close>.\<close>

fun as_list :: "pyval \<Rightarrow> pyval list" where
  "as_list (PList xs) = xs"
| "as_list v = []"

text \<open>\<^verbatim>\<open>bool(flags_val.get(key, False))\<close>.\<close>

definition flag_of :: "(pystr \<times> pyval) list \<Rightarrow> pystr \<Rightarrow> pyval" where
  "flag_of flags_val key = PBool (py_bool (dict_get flags_val key (PBool False)))"

text \<open>
  The last part of \<^verbatim>\<open>validate\<close>: from the parsed JSON object, the tags in force
  and the extracted text to the dictionary that the endpoint returns.
\<close>

definition sanitize ::
  "pylib \<Rightarrow> pystr list \<Rightarrow> pyval \<Rightarrow> (pystr \<times> pyval) list \<Rightarrow> (pystr \<times> pyval) list" where
  "sanitize L allowed_tags text_out parsed_json =
     (let allowed_val = py_bool (dict_get parsed_json (S ''allowed'') (PBool False));
          reason_val = dict_get parsed_json (S ''reason'') PNone;
          flags_val = as_dict (dict_get parsed_json (S ''flags'') (PDict []));
          suggested_raw = as_list (dict_get parsed_json (S ''suggestedTags'') (PList []));
          suggested_tags = filter (tag_ok allowed_tags) suggested_raw;
          flags = [(S ''inappropriate'', flag_of flags_val (S ''inappropriate'')),
                   (S ''spam'', flag_of flags_val (S ''spam'')),
                   (S ''advertisement'', flag_of flags_val (S ''advertisement'')),
                   (S ''mismatch'', flag_of flags_val (S ''mismatch''))]
      in [(S ''allowed'', PBool allowed_val),
          (S ''reason'', reason_val),
          (S ''flags'', PDict flags),
          (S ''suggestedTags'', PList suggested_tags),
          (S ''raw_llm'', PDict [(S ''raw'', PStr (take 4000 (py_str L text_out)))])])"

section \<open>The MIME type of an image\<close>

definition startswith :: "pystr \<Rightarrow> pystr \<Rightarrow> bool" where
  "startswith s p = (take (length p) s = p)"

text \<open>
  The exception that leaves \<^verbatim>\<open>guess_mime_from_url\<close>: the function has no handler,
  so what \<^verbatim>\<open>mimetypes.guess_type\<close> raises is raised to the caller.
\<close>

datatype guess_error = GuessTypeError

definition guess_mime_from_url :: "pylib \<Rightarrow> pystr \<Rightarrow> guess_error + pystr" where
  "guess_mime_from_url L url =
     (if url = [] then Inr (S ''image/jpeg'')
      else case guess_type L url of
             GuessRaises \<Rightarrow> Inl GuessTypeError
           | Guess None \<Rightarrow> Inr (S ''image/jpeg'')
           | Guess (Some mime) \<Rightarrow>
               if mime \<noteq> [] \<and> startswith mime (S ''image/'') then Inr mime
               else Inr (S ''image/jpeg''))"

text \<open>
  A library instance for evaluating concrete inputs: no Unicode names, no character
  references rewritten, \<^verbatim>\<open>str()\<close> of a non-string left empty, and a small
  \<^verbatim>\<open>guess_type\<close>. The inputs evaluated with it contain no \<^verbatim>\<open>\N{\<close> and no \<^verbatim>\<open>&\<close>.
\<close>

definition ends_with :: "pystr \<Rightarrow> pystr \<Rightarrow> bool" where
  "ends_with s p = (length p \<le> length s \<and> drop (length s - length p) s = p)"

text \<open>
  The network location of an \<^verbatim>\<open>http://\<close> or \<^verbatim>\<open>https://\<close> URL as
  \<^verbatim>\<open>urlsplit\<close> cuts it: from behind \<^verbatim>\<open>//\<close> to the first \<^verbatim>\<open>/\<close>, \<^verbatim>\<open>?\<close> or
  \<^verbatim>\<open>#\<close>.
\<close>

definition netloc_of :: "pystr \<Rightarrow> pystr option" where
  "netloc_of url =
     (if startswith url (S ''http://'') then
        Some (takeWhile (\<lambda>c. c \<noteq> 47 \<and> c \<noteq> 63 \<and> c \<noteq> 35) (drop 7 url))
      else if startswith url (S ''https://'') then
        Some (takeWhile (\<lambda>c. c \<noteq> 47 \<and> c \<noteq> 63 \<and> c \<noteq> 35) (drop 8 url))
      else None)"

text \<open>
  \<^verbatim>\<open>urlsplit\<close> raises \<^verbatim>\<open>ValueError("Invalid IPv6 URL")\<close> when the network
  location has one of the two square brackets without the other.
\<close>

definition lone_bracket :: "pystr \<Rightarrow> bool" where
  "lone_bracket netloc \<longleftrightarrow>
     (91 \<in> set netloc \<and> 93 \<notin> set netloc) \<or> (93 \<in> set netloc \<and> 91 \<notin> set netloc)"

text \<open>
  The small \<^verbatim>\<open>guess_type\<close>: it raises on a lone bracket in the network location
  and otherwise knows four extensions.
\<close>

definition small_guess_type :: "pystr \<Rightarrow> guess" where
  "small_guess_type url =
     (if (case netloc_of url of None \<Rightarrow> False | Some netloc \<Rightarrow> lone_bracket netloc)
      then GuessRaises
      else if ends_with url (S ''.png'') then Guess (Some (S ''image/png''))
      else if ends_with url (S ''.gif'') then Guess (Some (S ''image/gif''))
      else if ends_with url (S ''.pdf'') then Guess (Some (S ''application/pdf''))
      else if ends_with url (S ''.txt'') then Guess (Some (S ''text/plain''))
      else Guess None)"

definition small_lib :: pylib where
  "small_lib = \<lparr> ucd_lookup = (\<lambda>n. None), charref_sub = (\<lambda>s. s),
                 guess_type = small_guess_type, builtin_str = (\<lambda>v. []) \<rparr>"

section \<open>The response text extractor\<close>

text \<open>
  \<^verbatim>\<open>getattr(x, name, None)\<close> for the names the extractor probes (candidates, text,
  outputs, content, plain_text, response, output). No built-in value has an attribute
  of these names, so only an object can answer. The result \<open>None\<close> is an exception
  raised by the attribute itself; a missing attribute gives the default.
\<close>

fun getattr :: "pyval \<Rightarrow> pystr \<Rightarrow> pyval option" where
  "getattr (PObj attrs) name = (case map_of attrs name of None \<Rightarrow> Some PNone | Some r \<Rightarrow> r)"
| "getattr v name = Some PNone"

text \<open>\<^verbatim>\<open>isinstance(x, (list, tuple))\<close> and the items of such a value.\<close>

fun is_seq :: "pyval \<Rightarrow> bool" where
  "is_seq (PList xs) = True"
| "is_seq (PTuple xs) = True"
| "is_seq v = False"

fun seq_items :: "pyval \<Rightarrow> pyval list" where
  "seq_items (PList xs) = xs"
| "seq_items (PTuple xs) = xs"
| "seq_items v = []"

text \<open>\<^verbatim>\<open>x.get(key) if isinstance(x, dict) else None\<close>.\<close>

fun get_if_dict :: "pyval \<Rightarrow> pystr \<Rightarrow> pyval" where
  "get_if_dict (PDict d) key = dict_get d key PNone"
| "get_if_dict v key = PNone"

text \<open>
  Whitespace of \<^verbatim>\<open>str.strip()\<close>, \<^verbatim>\<open>str.isspace()\<close> and of \<^verbatim>\<open>\s\<close> in a pattern
  on \<^verbatim>\<open>str\<close>.
\<close>

definition is_space :: "nat \<Rightarrow> bool" where
  "is_space c \<longleftrightarrow>
     (9 \<le> c \<and> c \<le> 13) \<or> (28 \<le> c \<and> c \<le> 32) \<or> c = 133 \<or> c = 160 \<or> c = 5760
     \<or> (8192 \<le> c \<and> c \<le> 8202) \<or> c = 8232 \<or> c = 8233 \<or> c = 8239 \<or> c = 8287
     \<or> c = 12288"

definition py_strip :: "pystr \<Rightarrow> pystr" where
  "py_strip s = rev (dropWhile is_space (rev (dropWhile is_space s)))"

text \<open>\<^verbatim>\<open>isinstance(x, str) and x.strip()\<close>.\<close>

fun nonblank_str :: "pyval \<Rightarrow> bool" where
  "nonblank_str (PStr s) = (py_strip s \<noteq> [])"
| "nonblank_str v = False"

text \<open>
  What one \<^verbatim>\<open>try\<close> block of the extractor does: it returns a value, it runs to
  its end without returning, or it raises. \<^verbatim>\<open>except Exception: pass\<close> turns a
  raise into running to the end.
\<close>

datatype 'a attempt = Returned 'a | Passed | Raised

text \<open>Strategy 1, the body of the first \<^verbatim>\<open>try\<close>.\<close>

definition try_candidates :: "pyval \<Rightarrow> pyval attempt" where
  "try_candidates response =
     (case getattr response (S ''candidates'') of
        None \<Rightarrow> Raised
      | Some cands \<Rightarrow>
          if py_bool cands \<and> is_seq cands \<and> 0 < length (seq_items cands) then
            (case seq_items cands of
               [] \<Rightarrow> Passed
             | cand0 # rest \<Rightarrow>
                 (case getattr cand0 (S ''text'') of
                    None \<Rightarrow> Raised
                  | Some a \<Rightarrow>
                      let txt = (if py_bool a then a else get_if_dict cand0 (S ''text''))
                      in if py_bool txt then Returned txt else Passed))
          else Passed)"

text \<open>
  The inner loop over \<^verbatim>\<open>("text", "plain_text", "content")\<close> for a part that is a
  dictionary.
\<close>

fun scan_keys :: "(pystr \<times> pyval) list \<Rightarrow> pystr list \<Rightarrow> pyval option" where
  "scan_keys part [] = None"
| "scan_keys part (key # keys) =
     (case map_of part key of
        Some v \<Rightarrow> if nonblank_str v then Some v else scan_keys part keys
      | None \<Rightarrow> scan_keys part keys)"

text \<open>The loop \<^verbatim>\<open>for part in content\<close>.\<close>

fun scan_parts :: "pyval list \<Rightarrow> pyval attempt" where
  "scan_parts [] = Passed"
| "scan_parts (PDict d # parts) =
     (case scan_keys d [S ''text'', S ''plain_text'', S ''content''] of
        Some v \<Rightarrow> Returned v
      | None \<Rightarrow> scan_parts parts)"
| "scan_parts (part # parts) =
     (case getattr part (S ''text'') of
        None \<Rightarrow> Raised
      | Some a \<Rightarrow>
          (case (if py_bool a then Some a else getattr part (S ''plain_text'')) of
             None \<Rightarrow> Raised
           | Some txt \<Rightarrow>
               if py_bool txt \<and> nonblank_str txt then Returned txt else scan_parts parts))"

text \<open>Strategy 2, the body of the second \<^verbatim>\<open>try\<close>.\<close>

definition try_outputs :: "pylib \<Rightarrow> pyval \<Rightarrow> pyval attempt" where
  "try_outputs L response =
     (case getattr response (S ''outputs'') of
        None \<Rightarrow> Raised
      | Some outputs \<Rightarrow>
          if py_bool outputs \<and> is_seq outputs \<and> 0 < length (seq_items outputs) then
            (case seq_items outputs of
               [] \<Rightarrow> Passed
             | out0 # rest \<Rightarrow>
                 (case getattr out0 (S ''content'') of
                    None \<Rightarrow> Raised
                  | Some a \<Rightarrow>
                      (let content = (if py_bool a then a else get_if_dict out0 (S ''content''))
                       in (case (if is_seq content \<and> py_bool content
                                 then scan_parts (seq_items content) else Passed) of
                             Returned v \<Rightarrow> Returned v
                           | Raised \<Rightarrow> Raised
                           | Passed \<Rightarrow> Returned (PStr (py_str L out0))))))
          else Passed)"

text \<open>Strategy 3, the body of the third \<^verbatim>\<open>try\<close>.\<close>

definition try_response :: "pylib \<Rightarrow> pyval \<Rightarrow> pyval attempt" where
  "try_response L response =
     (case getattr response (S ''response'') of
        None \<Rightarrow> Raised
      | Some a \<Rightarrow>
          (case (if py_bool a then Some a else getattr response (S ''output'')) of
             None \<Rightarrow> Raised
           | Some maybe \<Rightarrow>
               if py_bool maybe then
                 (let s = py_str L maybe
                  in if s \<noteq> [] \<and> 0 < length s then Returned (PStr s) else Passed)
               else Passed))"

text \<open>
  The extractor. \<^verbatim>\<open>str()\<close> of a value is taken to return; an object whose
  \<^verbatim>\<open>__str__\<close> raises is outside this model.
\<close>

definition extract_text_from_response :: "pylib \<Rightarrow> pyval \<Rightarrow> pyval" where
  "extract_text_from_response L response =
     (case try_candidates response of
        Returned v \<Rightarrow> v
      | _ \<Rightarrow>
        (case try_outputs L response of
           Returned v \<Rightarrow> v
         | _ \<Rightarrow>
           (case try_response L response of
              Returned v \<Rightarrow> v
            | _ \<Rightarrow> PStr (py_str L response))))"

section \<open>Library routines of the JSON recovery engine\<close>

subsection \<open>Substrings and the two patterns\<close>

text \<open>\<^verbatim>\<open>p in s\<close> for strings.\<close>

fun contains :: "pystr \<Rightarrow> pystr \<Rightarrow> bool" where
  "contains [] p = (p = [])"
| "contains (c # cs) p = (startswith (c # cs) p \<or> contains cs p)"

definition fence :: pystr where
  "fence = [96, 96, 96]"

text \<open>
  The pattern \<^verbatim>\<open>```(?:json)?\s*([\s\S]*?)\s*```\<close> with \<^verbatim>\<open>re.IGNORECASE\<close>, read as
  the backtracking matcher reads it. \<open>lazy_until_fence\<close> is the lazy group followed by
  \<^verbatim>\<open>\s*```\<close>: the shortest group after which optional whitespace and a fence
  follow.
\<close>

fun lazy_until_fence :: "pystr \<Rightarrow> pystr option" where
  "lazy_until_fence [] = None"
| "lazy_until_fence (c # cs) =
     (if startswith (dropWhile is_space (c # cs)) fence then Some []
      else map_option ((#) c) (lazy_until_fence cs))"

text \<open>
  The greedy \<^verbatim>\<open>\s*\<close> before the group: it first takes all \<open>k\<close> whitespace
  characters and gives them back one at a time while the rest does not match.
\<close>

fun ws_then_group :: "nat \<Rightarrow> pystr \<Rightarrow> pystr option" where
  "ws_then_group 0 r = lazy_until_fence r"
| "ws_then_group (Suc k) r =
     (case lazy_until_fence (drop (Suc k) r) of
        Some g \<Rightarrow> Some g
      | None \<Rightarrow> ws_then_group k r)"

text \<open>
  \<^verbatim>\<open>json\<close> without regard to case. Besides the two cases of each letter, the
  long s (U+017F) matches \<open>s\<close>.
\<close>

definition ci_json :: "pystr \<Rightarrow> bool" where
  "ci_json r \<longleftrightarrow>
     (case r of
        c1 # c2 # c3 # c4 # rest \<Rightarrow>
          (c1 = 106 \<or> c1 = 74) \<and> (c2 = 115 \<or> c2 = 83 \<or> c2 = 383)
          \<and> (c3 = 111 \<or> c3 = 79) \<and> (c4 = 110 \<or> c4 = 78)
      | _ \<Rightarrow> False)"

text \<open>The pattern after its opening fence: with \<^verbatim>\<open>json\<close> first, then without.\<close>

definition after_fence :: "pystr \<Rightarrow> pystr option" where
  "after_fence r =
     (case (if ci_json r
            then ws_then_group (length (takeWhile is_space (drop 4 r))) (drop 4 r)
            else None) of
        Some g \<Rightarrow> Some g
      | None \<Rightarrow> ws_then_group (length (takeWhile is_space r)) r)"

text \<open>\<^verbatim>\<open>re.search\<close>: the leftmost start at which the pattern matches; group 1.\<close>

fun fence_search :: "pystr \<Rightarrow> pystr option" where
  "fence_search [] = None"
| "fence_search (c # cs) =
     (if startswith (c # cs) fence then
        (case after_fence (drop 2 cs) of
           Some g \<Rightarrow> Some g
         | None \<Rightarrow> fence_search cs)
      else fence_search cs)"

text \<open>
  The pattern \<^verbatim>\<open>(\{(?:[\s\S]*?)\})\<close>: from a \<open>{\<close> lazily to the first \<open>}\<close> after
  it.
\<close>

fun until_close :: "pystr \<Rightarrow> pystr option" where
  "until_close [] = None"
| "until_close (c # cs) =
     (if c = 125 then Some [c] else map_option ((#) c) (until_close cs))"

fun brace_search :: "pystr \<Rightarrow> pystr option" where
  "brace_search [] = None"
| "brace_search (c # cs) =
     (if c = 123 then
        (case until_close cs of
           Some g \<Rightarrow> Some (c # g)
         | None \<Rightarrow> brace_search cs)
      else brace_search cs)"

subsection \<open>The codecs\<close>

text \<open>
  \<^verbatim>\<open>s.encode('utf-8')\<close>: the bytes of a text; a surrogate cannot be encoded and
  raises.
\<close>

definition utf8_char :: "nat \<Rightarrow> nat list option" where
  "utf8_char cp =
     (if cp < 128 then Some [cp]
      else if cp < 2048 then Some [192 + cp div 64, 128 + cp mod 64]
      else if 55296 \<le> cp \<and> cp \<le> 57343 then None
      else if cp < 65536 then
        Some [224 + cp div 4096, 128 + (cp div 64) mod 64, 128 + cp mod 64]
      else if cp \<le> 1114111 then
        Some [240 + cp div 262144, 128 + (cp div 4096) mod 64,
              128 + (cp div 64) mod 64, 128 + cp mod 64]
      else None)"

fun utf8_encode :: "pystr \<Rightarrow> nat list option" where
  "utf8_encode [] = Some []"
| "utf8_encode (cp # cps) =
     (case utf8_char cp of
        None \<Rightarrow> None
      | Some bs \<Rightarrow> map_option ((@) bs) (utf8_encode cps))"

definition hexval :: "nat \<Rightarrow> nat option" where
  "hexval c =
     (if 48 \<le> c \<and> c \<le> 57 then Some (c - 48)
      else if 97 \<le> c \<and> c \<le> 102 then Some (c - 87)
      else if 65 \<le> c \<and> c \<le> 70 then Some (c - 55)
      else None)"

fun hexnum :: "nat \<Rightarrow> nat list \<Rightarrow> nat option" where
  "hexnum acc [] = Some acc"
| "hexnum acc (c # cs) =
     (case hexval c of None \<Rightarrow> None | Some d \<Rightarrow> hexnum (16 * acc + d) cs)"

text \<open>Exactly \<open>n\<close> hexadecimal digits at the head of the input.\<close>

definition read_hex :: "nat \<Rightarrow> nat list \<Rightarrow> nat option" where
  "read_hex n cs = (if length cs < n then None else hexnum 0 (take n cs))"

definition is_octal :: "nat \<Rightarrow> bool" where
  "is_octal c \<longleftrightarrow> 48 \<le> c \<and> c \<le> 55"

fun octnum :: "nat \<Rightarrow> nat list \<Rightarrow> nat" where
  "octnum acc [] = acc"
| "octnum acc (c # cs) = octnum (8 * acc + (c - 48)) cs"

text \<open>
  \<^verbatim>\<open>bytes.decode('unicode_escape')\<close>: a byte that is no backslash is its Latin-1
  character; a backslash starts an escape; a backslash before an unknown character
  is kept with that character; a truncated or illegal escape raises.
\<close>

fun unicode_escape_decode :: "pylib \<Rightarrow> nat list \<Rightarrow> pystr option" where
  "unicode_escape_decode L [] = Some []"
| "unicode_escape_decode L [c] = (if c = 92 then None else Some [c])"
| "unicode_escape_decode L (c # e # cs) =
     (if c \<noteq> 92 then map_option ((#) c) (unicode_escape_decode L (e # cs))
      else if e = 10 then unicode_escape_decode L cs
      else if e = 92 \<or> e = 39 \<or> e = 34 then map_option ((#) e) (unicode_escape_decode L cs)
      else if e = 98 then map_option ((#) 8) (unicode_escape_decode L cs)
      else if e = 102 then map_option ((#) 12) (unicode_escape_decode L cs)
      else if e = 116 then map_option ((#) 9) (unicode_escape_decode L cs)
      else if e = 110 then map_option ((#) 10) (unicode_escape_decode L cs)
      else if e = 114 then map_option ((#) 13) (unicode_escape_decode L cs)
      else if e = 118 then map_option ((#) 11) (unicode_escape_decode L cs)
      else if e = 97 then map_option ((#) 7) (unicode_escape_decode L cs)
      else if is_octal e then
        (let more = takeWhile is_octal (take 2 cs)
         in map_option ((#) (octnum 0 (e # more)))
              (unicode_escape_decode L (drop (length more) cs)))
      else if e = 120 then
        (case read_hex 2 cs of
           None \<Rightarrow> None
         | Some ch \<Rightarrow> map_option ((#) ch) (unicode_escape_decode L (drop 2 cs)))
      else if e = 117 then
        (case read_hex 4 cs of
           None \<Rightarrow> None
         | Some ch \<Rightarrow> map_option ((#) ch) (unicode_escape_decode L (drop 4 cs)))
      else if e = 85 then
        (case read_hex 8 cs of
           None \<Rightarrow> None
         | Some ch \<Rightarrow>
             if 1114111 < ch then None
             else map_option ((#) ch) (unicode_escape_decode L (drop 8 cs)))
      else if e = 78 then
        (case cs of
           [] \<Rightarrow> None
         | b # r \<Rightarrow>
             let name = takeWhile (\<lambda>x. x \<noteq> 125) r
             in if b = 123 \<and> length name < length r \<and> name \<noteq> [] then
                  (case ucd_lookup L name of
                     None \<Rightarrow> None
                   | Some ch \<Rightarrow>
                       map_option ((#) ch) (unicode_escape_decode L (drop (Suc (length name)) r)))
                else None)
      else map_option (\<lambda>u. 92 # e # u) (unicode_escape_decode L cs))"

text \<open>\<^verbatim>\<open>s.encode('utf-8').decode('unicode_escape')\<close>; \<open>None\<close> when either step raises.\<close>

definition unicode_escape :: "pylib \<Rightarrow> pystr \<Rightarrow> pystr option" where
  "unicode_escape L s =
     (case utf8_encode s of None \<Rightarrow> None | Some bs \<Rightarrow> unicode_escape_decode L bs)"

text \<open>
  \<^verbatim>\<open>html.unescape\<close>: a text without \<open>&\<close> is returned as it is; otherwise the
  character references are substituted.
\<close>

definition html_unescape :: "pylib \<Rightarrow> pystr \<Rightarrow> pystr" where
  "html_unescape L s = (if 38 \<notin> set s then s else charref_sub L s)"

subsection \<open>The JSON decoder\<close>

text \<open>
  \<^verbatim>\<open>json.loads\<close> on a text, with the decoder's defaults: strict strings, integers
  without bound, the constants NaN, Infinity and -Infinity, whitespace of blank, tab,
  line feed and carriage return, and the whole text consumed. The text is cut into
  tokens and the tokens are read with a stack of the open arrays and objects; the
  interpreter's limits on nesting depth and on the digits of an integer are not
  modelled.
\<close>

datatype token =
  TLBrace | TRBrace | TLBracket | TRBracket | TColon | TComma | TStr pystr | TAtom pyval

text \<open>The one-character escapes of a JSON string.\<close>

definition simple_escape :: "nat \<Rightarrow> nat option" where
  "simple_escape e =
     (if e = 34 \<or> e = 92 \<or> e = 47 then Some e
      else if e = 98 then Some 8
      else if e = 102 then Some 12
      else if e = 110 then Some 10
      else if e = 114 then Some 13
      else if e = 116 then Some 9
      else None)"

text \<open>
  After a high surrogate \<open>u\<close>: when \<^verbatim>\<open>\uXXXX\<close> with a low surrogate follows, the
  code point of the pair.
\<close>

definition join_surrogate :: "nat \<Rightarrow> pystr \<Rightarrow> nat option" where
  "join_surrogate u r =
     (if 55296 \<le> u \<and> u \<le> 56319 \<and> startswith r [92, 117] then
        (case read_hex 4 (drop 2 r) of
           None \<Rightarrow> None
         | Some u2 \<Rightarrow>
             if 56320 \<le> u2 \<and> u2 \<le> 57343
             then Some (65536 + (u - 55296) * 1024 + (u2 - 56320))
             else None)
      else None)"

definition push :: "nat \<Rightarrow> nat \<Rightarrow> (pystr \<times> nat) option \<Rightarrow> (pystr \<times> nat) option" where
  "push ch k res = map_option (\<lambda>(s, n). (ch # s, n + k)) res"

text \<open>
  A string from behind its opening quote: its characters and the number of
  characters read, the closing quote included.
\<close>

fun scan_string :: "pystr \<Rightarrow> (pystr \<times> nat) option" where
  "scan_string [] = None"
| "scan_string (c # cs) =
     (if c = 34 then Some ([], 1)
      else if c = 92 then
        (case cs of
           [] \<Rightarrow> None
         | e # r \<Rightarrow>
             if e = 117 then
               (case read_hex 4 r of
                  None \<Rightarrow> None
                | Some u \<Rightarrow>
                    (case join_surrogate u (drop 4 r) of
                       Some pair \<Rightarrow> push pair 12 (scan_string (drop 10 r))
                     | None \<Rightarrow> push u 6 (scan_string (drop 4 r))))
             else
               (case simple_escape e of
                  None \<Rightarrow> None
                | Some ch \<Rightarrow> push ch 2 (scan_string r)))
      else if c < 32 then None
      else push c 1 (scan_string cs))"

definition is_digit :: "nat \<Rightarrow> bool" where
  "is_digit c \<longleftrightarrow> 48 \<le> c \<and> c \<le> 57"

fun decnum :: "nat \<Rightarrow> nat list \<Rightarrow> nat" where
  "decnum acc [] = acc"
| "decnum acc (c # cs) = decnum (10 * acc + (c - 48)) cs"

text \<open>The integer part \<^verbatim>\<open>0|[1-9][0-9]*\<close>.\<close>

definition int_digits :: "pystr \<Rightarrow> pystr" where
  "int_digits r =
     (case r of
        [] \<Rightarrow> []
      | d # r1 \<Rightarrow>
          if d = 48 then [d]
          else if 49 \<le> d \<and> d \<le> 57 then d # takeWhile is_digit r1
          else [])"

text \<open>The fraction \<^verbatim>\<open>\.[0-9]+\<close>: its digits, none when there is no fraction.\<close>

definition frac_digits :: "pystr \<Rightarrow> pystr" where
  "frac_digits r =
     (case r of
        [] \<Rightarrow> []
      | p # r1 \<Rightarrow> if p = 46 then takeWhile is_digit r1 else [])"

text \<open>
  The exponent \<^verbatim>\<open>[eE][-+]?[0-9]+\<close>: whether it is negative, its digits, and the
  number of characters it takes; none when there is no exponent.
\<close>

definition exp_part :: "pystr \<Rightarrow> (bool \<times> pystr \<times> nat) option" where
  "exp_part r =
     (case r of
        [] \<Rightarrow> None
      | x # r1 \<Rightarrow>
          if x = 101 \<or> x = 69 then
            (let signed = (case r1 of [] \<Rightarrow> False | g # r2 \<Rightarrow> g = 45 \<or> g = 43);
                 ds = takeWhile is_digit (if signed then tl r1 else r1)
             in if ds = [] then None
                else Some (signed \<and> hd r1 = 45, ds, 1 + (if signed then 1 else 0) + length ds))
          else None)"

text \<open>A JSON number: the value and the number of characters read.\<close>

definition scan_number :: "pystr \<Rightarrow> (pyval \<times> nat) option" where
  "scan_number s =
     (let neg = (case s of [] \<Rightarrow> False | c # r \<Rightarrow> c = 45);
          r0 = (if neg then tl s else s);
          ds = int_digits r0;
          ra = drop (length ds) r0;
          fs = frac_digits ra;
          rb = (if fs = [] then ra else drop (Suc (length fs)) ra);
          n0 = (if neg then 1 else 0) + length ds + (if fs = [] then 0 else Suc (length fs))
      in if ds = [] then None
         else
           (case exp_part rb of
              None \<Rightarrow>
                if fs = [] then
                  Some (PInt (if neg then - int (decnum 0 ds) else int (decnum 0 ds)), n0)
                else Some (PFloat (FDec neg (decnum 0 (ds @ fs)) (- int (length fs))), n0)
            | Some (eneg, es, n1) \<Rightarrow>
                Some (PFloat (FDec neg (decnum 0 (ds @ fs))
                        ((if eneg then - int (decnum 0 es) else int (decnum 0 es))
                          - int (length fs))),
                      n0 + n1)))"

text \<open>A value that is no string, array or object: the constants, then a number.\<close>

definition scan_atom :: "pystr \<Rightarrow> (pyval \<times> nat) option" where
  "scan_atom s =
     (if startswith s (S ''null'') then Some (PNone, 4)
      else if startswith s (S ''true'') then Some (PBool True, 4)
      else if startswith s (S ''false'') then Some (PBool False, 5)
      else if startswith s (S ''NaN'') then Some (PFloat FNaN, 3)
      else if startswith s (S ''Infinity'') then Some (PFloat (FInf False), 8)
      else if startswith s (S ''-Infinity'') then Some (PFloat (FInf True), 9)
      else scan_number s)"

definition tok :: "token \<Rightarrow> token list option \<Rightarrow> token list option" where
  "tok t res = map_option ((#) t) res"

fun lex :: "pystr \<Rightarrow> token list option" where
  "lex [] = Some []"
| "lex (c # cs) =
     (if c = 32 \<or> c = 9 \<or> c = 10 \<or> c = 13 then lex cs
      else if c = 123 then tok TLBrace (lex cs)
      else if c = 125 then tok TRBrace (lex cs)
      else if c = 91 then tok TLBracket (lex cs)
      else if c = 93 then tok TRBracket (lex cs)
      else if c = 58 then tok TColon (lex cs)
      else if c = 44 then tok TComma (lex cs)
      else if c = 34 then
        (case scan_string cs of
           None \<Rightarrow> None
         | Some (s, n) \<Rightarrow> tok (TStr s) (lex (drop n cs)))
      else
        (case scan_atom (c # cs) of
           None \<Rightarrow> None
         | Some (v, n) \<Rightarrow> tok (TAtom v) (lex (drop (n - 1) cs))))"

text \<open>\<^verbatim>\<open>d[k] = v\<close>: a key that is present keeps its place.\<close>

fun dict_set :: "(pystr \<times> pyval) list \<Rightarrow> pystr \<Rightarrow> pyval \<Rightarrow> (pystr \<times> pyval) list" where
  "dict_set [] k v = [(k, v)]"
| "dict_set ((k', v') # d) k v =
     (if k' = k then (k, v) # d else (k', v') # dict_set d k v)"

text \<open>
  An open array with its items so far, newest first, or an open object with its
  entries so far and the key whose value is being read.
\<close>

datatype frame = FArr "pyval list" | FObj "(pystr \<times> pyval) list" "pystr option"

text \<open>What the reader expects next.\<close>

datatype expect =
    WantValue
  | WantValueOrClose
  | WantKeyOrClose
  | WantKey
  | WantColon
  | Have pyval

text \<open>A value begins: a string or constant is complete, a bracket opens a level.\<close>

definition value_start :: "frame list \<Rightarrow> token \<Rightarrow> (expect \<times> frame list) option" where
  "value_start st t =
     (case t of
        TStr s \<Rightarrow> Some (Have (PStr s), st)
      | TAtom v \<Rightarrow> Some (Have v, st)
      | TLBracket \<Rightarrow> Some (WantValueOrClose, FArr [] # st)
      | TLBrace \<Rightarrow> Some (WantKeyOrClose, FObj [] None # st)
      | _ \<Rightarrow> None)"

definition key_start :: "frame list \<Rightarrow> pystr \<Rightarrow> (expect \<times> frame list) option" where
  "key_start st k =
     (case st of
        FObj d None # st' \<Rightarrow> Some (WantColon, FObj d (Some k) # st')
      | _ \<Rightarrow> None)"

text \<open>One token: the new expectation and stack, or \<open>None\<close> for a syntax error.\<close>

definition step :: "expect \<Rightarrow> frame list \<Rightarrow> token \<Rightarrow> (expect \<times> frame list) option" where
  "step e st t =
     (case e of
        WantValue \<Rightarrow> value_start st t
      | WantValueOrClose \<Rightarrow>
          (case t of
             TRBracket \<Rightarrow>
               (case st of
                  FArr acc # st' \<Rightarrow> Some (Have (PList (rev acc)), st')
                | _ \<Rightarrow> None)
           | _ \<Rightarrow> value_start st t)
      | WantKeyOrClose \<Rightarrow>
          (case t of
             TStr k \<Rightarrow> key_start st k
           | TRBrace \<Rightarrow>
               (case st of
                  FObj d None # st' \<Rightarrow> Some (Have (PDict d), st')
                | _ \<Rightarrow> None)
           | _ \<Rightarrow> None)
      | WantKey \<Rightarrow> (case t of TStr k \<Rightarrow> key_start st k | _ \<Rightarrow> None)
      | WantColon \<Rightarrow> (case t of TColon \<Rightarrow> Some (WantValue, st) | _ \<Rightarrow> None)
      | Have v \<Rightarrow>
          (case st of
             [] \<Rightarrow> None
           | FArr acc # st' \<Rightarrow>
               (case t of
                  TComma \<Rightarrow> Some (WantValue, FArr (v # acc) # st')
                | TRBracket \<Rightarrow> Some (Have (PList (rev (v # acc))), st')
                | _ \<Rightarrow> None)
           | FObj d None # st' \<Rightarrow> None
           | FObj d (Some k) # st' \<Rightarrow>
               (case t of
                  TComma \<Rightarrow> Some (WantKey, FObj (dict_set d k v) None # st')
                | TRBrace \<Rightarrow> Some (Have (PDict (dict_set d k v)), st')
                | _ \<Rightarrow> None)))"

text \<open>At the end of the tokens one value must be complete and no level open.\<close>

definition finish :: "expect \<Rightarrow> frame list \<Rightarrow> pyval option" where
  "finish e st = (case e of Have v \<Rightarrow> (if st = [] then Some v else None) | _ \<Rightarrow> None)"

fun read_tokens :: "expect \<Rightarrow> frame list \<Rightarrow> token list \<Rightarrow> pyval option" where
  "read_tokens e st [] = finish e st"
| "read_tokens e st (t # ts) =
     (case step e st t of
        None \<Rightarrow> None
      | Some (e', st') \<Rightarrow> read_tokens e' st' ts)"

definition json_loads :: "pystr \<Rightarrow> pyval option" where
  "json_loads s = (case lex s of None \<Rightarrow> None | Some ts \<Rightarrow> read_tokens WantValue [] ts)"

section \<open>The JSON recovery engine\<close>

text \<open>
  The \<^verbatim>\<open>ValueError\<close> raised by the recovery function, with its message. The
  message of the third error ends with the decoder's diagnostic, which is left out.
\<close>

datatype recovery_error = ValueError pystr

text \<open>
  Stage 1 of \<^verbatim>\<open>clean_model_text_and_extract_json\<close>: \<^verbatim>\<open>s = text.strip()\<close> and,
  when the fence pattern is found, \<^verbatim>\<open>s = fence_re.group(1).strip()\<close>.
\<close>

definition strip_fences :: "pystr \<Rightarrow> pystr" where
  "strip_fences t =
     (let s = py_strip t
      in case fence_search s of None \<Rightarrow> s | Some g \<Rightarrow> py_strip g)"

text \<open>
  The test of stage 2: \<^verbatim>\<open>r'\"' in s or r'\\n' in s or r'\\\"' in s\<close>. The raw
  literals are backslash quote, backslash backslash n, and backslash backslash
  backslash quote.
\<close>

definition has_escape_markers :: "pystr \<Rightarrow> bool" where
  "has_escape_markers s \<longleftrightarrow>
     contains s [92, 34] \<or> contains s [92, 92, 110] \<or> contains s [92, 92, 92, 34]"

text \<open>
  \<^verbatim>\<open>if u.startswith('"') and u.endswith('"'): u = u[1:-1]\<close>.
\<close>

definition trim_quotes :: "pystr \<Rightarrow> pystr" where
  "trim_quotes u = (if startswith u [34] \<and> ends_with u [34] then butlast (tl u) else u)"

text \<open>Stage 2: the \<^verbatim>\<open>try\<close> block around the unescape pass.\<close>

definition escape_normalize :: "pylib \<Rightarrow> pystr \<Rightarrow> pystr" where
  "escape_normalize L s =
     (if has_escape_markers s then
        (case unicode_escape L s of
           None \<Rightarrow> s
         | Some s_unescaped \<Rightarrow> trim_quotes s_unescaped)
      else s)"

text \<open>Stage 4, entered with the match of the brace pattern.\<close>

definition parse_candidate :: "pylib \<Rightarrow> pystr \<Rightarrow> recovery_error + pyval" where
  "parse_candidate L candidate =
     (let candidate_clean = (case unicode_escape L candidate of
                               None \<Rightarrow> candidate
                             | Some u \<Rightarrow> u)
      in case json_loads candidate_clean of
           Some v \<Rightarrow> Inr v
         | None \<Rightarrow>
             (case json_loads (html_unescape L candidate_clean) of
                Some v \<Rightarrow> Inr v
              | None \<Rightarrow> Inl (ValueError (S ''Failed to parse JSON candidate: ''))))"

text \<open>Stages 3 and 4 on the text that stages 1 and 2 leave.\<close>

definition parse_or_scan :: "pylib \<Rightarrow> pystr \<Rightarrow> recovery_error + pyval" where
  "parse_or_scan L s =
     (case json_loads s of
        Some v \<Rightarrow> Inr v
      | None \<Rightarrow>
          (case brace_search s of
             Some candidate \<Rightarrow> parse_candidate L candidate
           | None \<Rightarrow> Inl (ValueError (S ''Unable to extract JSON object from model output''))))"

text \<open>
  The recovery function. Its argument is whatever the extractor returned, so a value
  that is no string is an input too.
\<close>

definition clean_model_text_and_extract_json :: "pylib \<Rightarrow> pyval \<Rightarrow> recovery_error + pyval" where
  "clean_model_text_and_extract_json L text =
     (case text of
        PStr t \<Rightarrow>
          if t = [] then Inl (ValueError (S ''Empty or non-string model output''))
          else parse_or_scan L (escape_normalize L (strip_fences t))
      | _ \<Rightarrow> Inl (ValueError (S ''Empty or non-string model output'')))"

section \<open>The endpoint\<close>

datatype http_error = HTTPException nat pystr

text \<open>
  What the model call does: it returns a response object, it raises a
  \<^verbatim>\<open>GoogleAPIError\<close> with a message, or it raises another exception with a message
  (a missing \<^verbatim>\<open>GenerativeModel\<close> is such an exception).
\<close>

datatype llm_outcome = Response pyval | GoogleAPIError pystr | OtherError pystr

record CheckRequest =
  description :: pystr
  imageUrl :: "pystr option"
  allowedTags :: "pystr list option"

text \<open>
  The process state and the outside world of one request: the two module variables
  that \<^verbatim>\<open>validate\<close> reads, whether fetching the image succeeds, and what the model
  call does.
\<close>

record world =
  GENAI_CONFIGURED :: bool
  PREDEFINED_TAGS :: "pystr list"
  image_fetched :: bool
  llm :: llm_outcome

text \<open>
  The \<^verbatim>\<open>try\<close> block that prepares the image of a request with an image URL:
  \<^verbatim>\<open>requests.get\<close> with \<^verbatim>\<open>raise_for_status\<close>, then \<^verbatim>\<open>guess_mime_from_url\<close>. The
  block fails when the fetch fails or the guess raises; a request without an image
  does not enter it.
\<close>

definition image_part_fails :: "pylib \<Rightarrow> world \<Rightarrow> CheckRequest \<Rightarrow> bool" where
  "image_part_fails L w req =
     (case imageUrl req of
        None \<Rightarrow> False
      | Some url \<Rightarrow>
          if \<not> image_fetched w then True
          else (case guess_mime_from_url L url of Inl e \<Rightarrow> True | Inr mime \<Rightarrow> False))"

definition validate :: "pylib \<Rightarrow> world \<Rightarrow> CheckRequest \<Rightarrow> http_error + (pystr \<times> pyval) list" where
  "validate L w req =
     (if \<not> GENAI_CONFIGURED w then
        Inl (HTTPException 500
          (S ''LLM backend not configured. Set GEMINI_API_KEY and install google-generativeai.''))
      else
        let allowed_tags = effective_tags (PREDEFINED_TAGS w) (allowedTags req)
        in if image_part_fails L w req then
             Inl (HTTPException 400 (S ''Could not fetch image for validation''))
           else
             (case llm w of
                GoogleAPIError msg \<Rightarrow> Inl (HTTPException 500 (S ''Gemini API error: '' @ msg))
              | OtherError msg \<Rightarrow> Inl (HTTPException 500 (S ''LLM check failed: '' @ msg))
              | Response resp \<Rightarrow>
                  (let text_out = extract_text_from_response L resp
                   in (case clean_model_text_and_extract_json L text_out of
                         Inl e \<Rightarrow>
                           Inl (HTTPException 500
                             (S ''LLM returned non-JSON output. Raw (truncated): ''
                              @ take 1000 (py_str L text_out)))
                       | Inr parsed_json \<Rightarrow>
                           (case parsed_json of
                              PDict d \<Rightarrow> Inr (sanitize L allowed_tags text_out d)
                            | _ \<Rightarrow>
                              Inl (HTTPException 500
                                (S ''LLM returned JSON that is not an object'')))))))"

section \<open>Example inputs\<close>

text \<open>
  Texts that the properties below are evaluated on. In a text, 92 is the backslash,
  34 the double quote, 10 the line feed and 9 the tab: \<open>newline_text\<close> is
  \<^verbatim>\<open>{"a": "x\ny"}\<close> with a backslash and an n, \<open>quoted_text\<close> is
  \<^verbatim>\<open>"{\"a\": 1}"\<close>, \<open>truncated_text\<close> is \<^verbatim>\<open>\"\x\<close>, \<open>fenced_tab_text\<close>
  is \<^verbatim>\<open>\" ```a\tb```\<close> and \<open>hex_brace_text\<close> is \<^verbatim>\<open>\x7b\"a\": 1}\<close>.
\<close>

definition prose_text :: pystr where
  \<open>prose_text = S ''Sure! Here is the result: {"allowed": true, "flags": {"spam": false}, "suggestedTags": ["Wifi"]} Hope that helps.''\<close>

definition refusal_text :: pystr where
  \<open>refusal_text = S ''I cannot comply with this request.''\<close>





definition hex_brace_text :: pystr where
  \<open>hex_brace_text = [92] @ S ''x7b'' @ [92] @ S ''"a'' @ [92] @ S ''": 1}''\<close>

definition fenced_text :: pystr where
  \<open>fenced_text = S ''```json'' @ [10] @ S ''{"allowed":true,"flags":{},"suggestedTags":[]}''
                   @ [10] @ S ''```''\<close>

definition escaped_text :: pystr where
  \<open>escaped_text = S ''"{'' @ [92] @ S ''"allowed'' @ [92] @ S ''": false, '' @ [92] @ S ''"reason''
                    @ [92] @ S ''": '' @ [92] @ S ''"uncertain'' @ [92] @ S ''", '' @ [92]
                    @ S ''"flags'' @ [92] @ S ''": {}, '' @ [92] @ S ''"suggestedTags'' @ [92]
                    @ S ''": []}"''\<close>

definition plain_request :: CheckRequest where
  "plain_request = \<lparr> description = S ''broken router'', imageUrl = None, allowedTags = None \<rparr>"

definition world_answering :: "pystr \<Rightarrow> world" where
  "world_answering t = \<lparr> GENAI_CONFIGURED = True, PREDEFINED_TAGS = [S ''Wifi'', S ''Other''],
                          image_fetched = True, llm = Response (PStr t) \<rparr>"

section \<open>Properties of the sanitizer\<close>

lemma S_keys_distinct:
  "S ''allowed'' \<noteq> S ''reason''" "S ''allowed'' \<noteq> S ''flags''"
  "S ''allowed'' \<noteq> S ''suggestedTags''" "S ''reason'' \<noteq> S ''flags''"
  "S ''reason'' \<noteq> S ''suggestedTags''" "S ''flags'' \<noteq> S ''suggestedTags''"
  "S ''reason'' \<noteq> S ''allowed''" "S ''flags'' \<noteq> S ''allowed''"
  "S ''suggestedTags'' \<noteq> S ''allowed''" "S ''flags'' \<noteq> S ''reason''"
  "S ''suggestedTags'' \<noteq> S ''reason''" "S ''suggestedTags'' \<noteq> S ''flags''"
  by (simp_all add: S_def)

lemma S_flags_distinct:
  "S ''inappropriate'' \<noteq> S ''spam''" "S ''inappropriate'' \<noteq> S ''advertisement''"
  "S ''inappropriate'' \<noteq> S ''mismatch''" "S ''spam'' \<noteq> S ''advertisement''"
  "S ''spam'' \<noteq> S ''mismatch''" "S ''advertisement'' \<noteq> S ''mismatch''"
  "S ''spam'' \<noteq> S ''inappropriate''" "S ''advertisement'' \<noteq> S ''inappropriate''"
  "S ''mismatch'' \<noteq> S ''inappropriate''" "S ''advertisement'' \<noteq> S ''spam''"
  "S ''mismatch'' \<noteq> S ''spam''" "S ''mismatch'' \<noteq> S ''advertisement''"
  by (simp_all add: S_def)

lemma sanitize_suggested:
  "map_of (sanitize L tags t j) (S ''suggestedTags'') =
     Some (PList (filter (tag_ok tags)
                    (as_list (dict_get j (S ''suggestedTags'') (PList [])))))"
  by (simp add: sanitize_def Let_def S_keys_distinct)

lemma sanitize_flags:
  "map_of (sanitize L tags t j) (S ''flags'') =
     Some (PDict
       (map (\<lambda>k. (k, flag_of (as_dict (dict_get j (S ''flags'') (PDict []))) k))
            [S ''inappropriate'', S ''spam'', S ''advertisement'', S ''mismatch'']))"
  by (simp add: sanitize_def Let_def S_keys_distinct)

lemma tag_ok_iff: "tag_ok tags v \<longleftrightarrow> (\<exists>s. v = PStr s \<and> s \<in> set tags)"
  by (cases v) simp_all

lemma filter_tag_ok_fixed: "filter (tag_ok tags) (filter (tag_ok tags) xs) = filter (tag_ok tags) xs"
  by simp

lemma flag_of_fixed:
  "flag_of [(S ''inappropriate'', flag_of d (S ''inappropriate'')),
            (S ''spam'', flag_of d (S ''spam'')),
            (S ''advertisement'', flag_of d (S ''advertisement'')),
            (S ''mismatch'', flag_of d (S ''mismatch''))] k
   = flag_of d k"
  if "k \<in> {S ''inappropriate'', S ''spam'', S ''advertisement'', S ''mismatch''}"
  using that by (auto simp: flag_of_def dict_get_def S_flags_distinct)


lemma sanitize_fields:
  "map_of (sanitize L tags t j) (S ''allowed'') =
     Some (PBool (py_bool (dict_get j (S ''allowed'') (PBool False))))"
  "map_of (sanitize L tags t j) (S ''reason'') = Some (dict_get j (S ''reason'') PNone)"
  by (simp_all add: sanitize_def Let_def S_keys_distinct)

lemma effective_tags_some:
  "effective_tags P (Some ts) =
     (if set ts \<inter> set P = {} then P else filter (\<lambda>t. t \<in> set P) ts)"
proof -
  have "filter (\<lambda>t. t \<in> set P) ts = [] \<longleftrightarrow> set ts \<inter> set P = {}"
    by (auto simp: filter_empty_conv)
  moreover have "filter (\<lambda>t. t \<in> set P) P = P"
    by simp
  ultimately show ?thesis
    by (auto simp: effective_tags_def Let_def)
qed

lemma effective_tags_none: "effective_tags P None = P"
  by (simp add: effective_tags_def Let_def)

subsection \<open>Facts about the patterns\<close>

lemma until_close_none: "125 \<notin> set s \<Longrightarrow> until_close s = None"
  by (induction s) auto

lemma brace_search_none: "123 \<notin> set s \<Longrightarrow> brace_search s = None"
  by (induction s) auto

lemma set_py_strip: "set (py_strip s) \<subseteq> set s"
proof -
  have "set (dropWhile P xs) \<subseteq> set xs" for P and xs :: "nat list"
    by (meson set_dropWhileD subsetI)
  then have "set (rev (dropWhile is_space (rev (dropWhile is_space s)))) \<subseteq> set (dropWhile is_space s)"
    by (metis set_rev)
  also have "\<dots> \<subseteq> set s" by (meson set_dropWhileD subsetI)
  finally show ?thesis by (simp add: py_strip_def)
qed

lemma lazy_until_fence_set: "lazy_until_fence s = Some g \<Longrightarrow> set g \<subseteq> set s"
  by (induction s arbitrary: g) (auto split: if_splits)

lemma ws_then_group_set: "ws_then_group k r = Some g \<Longrightarrow> set g \<subseteq> set r"
proof (induction k)
  case 0
  then show ?case by (simp add: lazy_until_fence_set)
next
  case (Suc k)
  show ?case
  proof (cases "lazy_until_fence (drop (Suc k) r)")
    case None
    with Suc show ?thesis by simp
  next
    case (Some h)
    with Suc.prems have "h = g" by simp
    with Some have "set g \<subseteq> set (drop (Suc k) r)" by (simp add: lazy_until_fence_set)
    then show ?thesis by (meson in_set_dropD subset_iff)
  qed
qed

lemma after_fence_set: "after_fence r = Some g \<Longrightarrow> set g \<subseteq> set r"
  unfolding after_fence_def
  by (auto split: if_splits option.splits dest!: ws_then_group_set dest: in_set_dropD)

lemma fence_search_set: "fence_search s = Some g \<Longrightarrow> set g \<subseteq> set s"
proof (induction s arbitrary: g)
  case Nil
  then show ?case by simp
next
  case (Cons c cs)
  then show ?case
    by (auto split: if_splits option.splits dest!: after_fence_set dest: in_set_dropD)
qed

lemma set_strip_fences: "set (strip_fences t) \<subseteq> set t"
proof (cases "fence_search (py_strip t)")
  case None
  then show ?thesis by (simp add: strip_fences_def set_py_strip)
next
  case (Some g)
  then have "set (py_strip g) \<subseteq> set (py_strip t)"
    using fence_search_set set_py_strip by blast
  with Some show ?thesis
    using set_py_strip [of t] by (auto simp: strip_fences_def)
qed

lemma no_brace_stays:
  "123 \<notin> set t \<Longrightarrow> \<not> has_escape_markers (strip_fences t) \<Longrightarrow>
     123 \<notin> set (escape_normalize L (strip_fences t))"
  using set_strip_fences [of t] by (auto simp: escape_normalize_def)





subsection \<open>Claims about the sanitizer and the tag set\<close>

text \<open>
  C1. For every parsed JSON object and every tag list in force, the \<open>suggestedTags\<close>
  entry of the sanitized decision is the list of those elements of the input's
  \<open>suggestedTags\<close> that are strings and members of the tag list: every element of the
  result is a string from the tag list, an element that is no string or is a string
  outside the list is dropped, and a field that is no list gives the empty list.
\<close>

theorem suggested_tags_subset:
  "map_of (sanitize L tags t j) (S ''suggestedTags'') =
     Some (PList (filter (tag_ok tags) (as_list (dict_get j (S ''suggestedTags'') (PList [])))))
   \<and> (\<forall>x \<in> set (filter (tag_ok tags) (as_list (dict_get j (S ''suggestedTags'') (PList [])))).
         \<exists>s. x = PStr s \<and> s \<in> set tags)
   \<and> (\<forall>x \<in> set (as_list (dict_get j (S ''suggestedTags'') (PList []))).
         \<not> (\<exists>s. x = PStr s \<and> s \<in> set tags) \<longrightarrow>
         x \<notin> set (filter (tag_ok tags) (as_list (dict_get j (S ''suggestedTags'') (PList [])))))
   \<and> ((\<forall>xs. dict_get j (S ''suggestedTags'') (PList []) \<noteq> PList xs) \<longrightarrow>
         map_of (sanitize L tags t j) (S ''suggestedTags'') = Some (PList []))"
proof -
  have "as_list v = []" if "\<forall>xs. v \<noteq> PList xs" for v
    using that by (cases v) simp_all
  then show ?thesis
    by (auto simp: sanitize_suggested tag_ok_iff)
qed

theorem suggested_tags_subset_witness:
  "map_of (sanitize small_lib [S ''Wifi'', S ''Other''] (PStr [])
             [(S ''suggestedTags'', PList [PStr (S ''Wifi''), PInt 3, PStr (S ''Bogus'')])])
          (S ''suggestedTags'') = Some (PList [PStr (S ''Wifi'')])
   \<and> map_of (sanitize small_lib [S ''Wifi'', S ''Other''] (PStr [])
             [(S ''suggestedTags'', PStr (S ''Wifi''))])
          (S ''suggestedTags'') = Some (PList [])"
  using suggested_tags_subset [of small_lib "[S ''Wifi'', S ''Other'']" "PStr []"
          "[(S ''suggestedTags'', PList [PStr (S ''Wifi''), PInt 3, PStr (S ''Bogus'')])]"]
        suggested_tags_subset [of small_lib "[S ''Wifi'', S ''Other'']" "PStr []"
          "[(S ''suggestedTags'', PStr (S ''Wifi''))]"]
  by (simp add: dict_get_def S_def)

text \<open>
  C4. Sanitizing is idempotent: sanitizing the sanitized decision again, with the same
  tags and the same extracted text, gives the same decision. This holds for every
  parsed object, so in particular for one that already has the shape of a decision.
\<close>

theorem sanitize_idempotent:
  "sanitize L tags t (sanitize L tags t j) = sanitize L tags t j"
proof -
  define f where "f = as_dict (dict_get j (S ''flags'') (PDict []))"
  define fl where "fl = [(S ''inappropriate'', flag_of f (S ''inappropriate'')),
                         (S ''spam'', flag_of f (S ''spam'')),
                         (S ''advertisement'', flag_of f (S ''advertisement'')),
                         (S ''mismatch'', flag_of f (S ''mismatch''))]"
  define sg where
    "sg = filter (tag_ok tags) (as_list (dict_get j (S ''suggestedTags'') (PList [])))"
  define a where "a = py_bool (dict_get j (S ''allowed'') (PBool False))"
  define r where "r = dict_get j (S ''reason'') PNone"
  define raw where "raw = PDict [(S ''raw'', PStr (take 4000 (py_str L t)))]"
  define out where
    "out = [(S ''allowed'', PBool a), (S ''reason'', r), (S ''flags'', PDict fl),
            (S ''suggestedTags'', PList sg), (S ''raw_llm'', raw)]"
  have first: "sanitize L tags t j = out"
    by (simp add: sanitize_def Let_def out_def f_def fl_def sg_def a_def r_def raw_def)
  have gets:
    "dict_get out (S ''allowed'') (PBool False) = PBool a"
    "dict_get out (S ''reason'') PNone = r"
    "dict_get out (S ''flags'') (PDict []) = PDict fl"
    "dict_get out (S ''suggestedTags'') (PList []) = PList sg"
    by (simp_all add: out_def dict_get_def S_keys_distinct)
  have fl_fixed: "flag_of fl k = flag_of f k"
    if "k \<in> {S ''inappropriate'', S ''spam'', S ''advertisement'', S ''mismatch''}" for k
    using that unfolding fl_def by (rule flag_of_fixed)
  have sg_fixed: "filter (tag_ok tags) sg = sg"
    by (simp add: sg_def)
  have "sanitize L tags t out = out"
    unfolding sanitize_def Let_def gets
    by (simp add: fl_fixed sg_fixed) (simp add: out_def fl_def raw_def)
  then show ?thesis
    by (simp add: first)
qed

text \<open>
  C5. For every parsed JSON object the \<open>flags\<close> entry of the sanitized decision has
  exactly the keys inappropriate, spam, advertisement and mismatch, each with a
  boolean: the truth value of the input's entry, false when the entry is missing.
  Other input keys do not appear, and a \<open>flags\<close> field that is no object gives four
  times false.
\<close>

theorem flags_complete:
  "map_of (sanitize L tags t j) (S ''flags'') =
     Some (PDict
       [(S ''inappropriate'', PBool (py_bool (dict_get (as_dict (dict_get j (S ''flags'') (PDict []))) (S ''inappropriate'') (PBool False)))),
        (S ''spam'', PBool (py_bool (dict_get (as_dict (dict_get j (S ''flags'') (PDict []))) (S ''spam'') (PBool False)))),
        (S ''advertisement'', PBool (py_bool (dict_get (as_dict (dict_get j (S ''flags'') (PDict []))) (S ''advertisement'') (PBool False)))),
        (S ''mismatch'', PBool (py_bool (dict_get (as_dict (dict_get j (S ''flags'') (PDict []))) (S ''mismatch'') (PBool False))))])
   \<and> (\<forall>k. map_of (as_dict (dict_get j (S ''flags'') (PDict []))) k = None \<longrightarrow>
          flag_of (as_dict (dict_get j (S ''flags'') (PDict []))) k = PBool False)
   \<and> ((\<forall>d. dict_get j (S ''flags'') (PDict []) \<noteq> PDict d) \<longrightarrow>
        map_of (sanitize L tags t j) (S ''flags'') =
          Some (PDict [(S ''inappropriate'', PBool False), (S ''spam'', PBool False),
                       (S ''advertisement'', PBool False), (S ''mismatch'', PBool False)]))"
proof -
  have "as_dict v = []" if "\<forall>d. v \<noteq> PDict d" for v
    using that by (cases v) simp_all
  then show ?thesis
    by (auto simp: sanitize_flags flag_of_def dict_get_def)
qed

theorem flags_complete_witness:
  "map_of (sanitize small_lib [] (PStr [])
             [(S ''flags'', PDict [(S ''spam'', PStr (S ''yes'')), (S ''extra'', PBool True),
                                   (S ''mismatch'', PInt 0)])])
          (S ''flags'') =
     Some (PDict [(S ''inappropriate'', PBool False), (S ''spam'', PBool True),
                  (S ''advertisement'', PBool False), (S ''mismatch'', PBool False)])
   \<and> map_of (sanitize small_lib [] (PStr []) [(S ''flags'', PList [PBool True])]) (S ''flags'') =
     Some (PDict [(S ''inappropriate'', PBool False), (S ''spam'', PBool False),
                  (S ''advertisement'', PBool False), (S ''mismatch'', PBool False)])"
  using flags_complete [of small_lib "[]" "PStr []"
          "[(S ''flags'', PDict [(S ''spam'', PStr (S ''yes'')), (S ''extra'', PBool True),
                                 (S ''mismatch'', PInt 0)])]"]
        flags_complete [of small_lib "[]" "PStr []" "[(S ''flags'', PList [PBool True])]"]
  by (simp add: dict_get_def S_def)

text \<open>
  C8. The tags in force for a request are the caller's \<open>allowedTags\<close> that belong to the
  process-wide tag list, and the whole process-wide list when no such tag exists or no
  \<open>allowedTags\<close> were sent; a request with the empty list uses the whole process-wide
  list.
\<close>

theorem effective_tags_intersection:
  "effective_tags P None = P
   \<and> effective_tags P (Some []) = P
   \<and> effective_tags P (Some ts) =
       (if set ts \<inter> set P = {} then P else filter (\<lambda>t. t \<in> set P) ts)
   \<and> set (effective_tags P (Some ts)) =
       (if set ts \<inter> set P = {} then set P else set ts \<inter> set P)"
  by (auto simp: effective_tags_some effective_tags_none)

theorem effective_tags_intersection_witness:
  "effective_tags [S ''Wifi'', S ''Network'', S ''Other''] (Some [S ''Other'', S ''Pool'', S ''Wifi''])
     = [S ''Other'', S ''Wifi'']
   \<and> effective_tags [S ''Wifi'', S ''Network'', S ''Other''] (Some [S ''Pool''])
     = [S ''Wifi'', S ''Network'', S ''Other'']"
  using effective_tags_intersection [of "[S ''Wifi'', S ''Network'', S ''Other'']"
          "[S ''Other'', S ''Pool'', S ''Wifi'']"]
        effective_tags_intersection [of "[S ''Wifi'', S ''Network'', S ''Other'']" "[S ''Pool'']"]
  by (simp add: S_def)

text \<open>
  C10, as stated, fails. On the URL \<^verbatim>\<open>http://[\<close> the call
  \<^verbatim>\<open>mimetypes.guess_type\<close> raises \<^verbatim>\<open>ValueError\<close>; the guesser has no handler, so
  it raises too and returns no MIME type.
\<close>

theorem guess_mime_can_raise:
  "S ''http://['' \<noteq> []
   \<and> guess_type small_lib (S ''http://['') = GuessRaises
   \<and> guess_mime_from_url small_lib (S ''http://['') = Inl GuessTypeError"
  by code_simp

text \<open>
  C10, amended. For the empty URL, and for every URL for which
  \<^verbatim>\<open>mimetypes.guess_type\<close> returns, the guesser returns an image MIME type: every
  result starts with \<open>image/\<close>; it is \<open>image/jpeg\<close> for the empty URL, for a URL
  whose type is unknown and for a URL whose known type is no image type, and the
  guessed type when that is an image type. For a non-empty URL on which
  \<^verbatim>\<open>mimetypes.guess_type\<close> raises, the guesser raises.
\<close>

theorem guess_mime_is_image:
  "(\<forall>m. guess_mime_from_url L url = Inr m \<longrightarrow> startswith m (S ''image/''))
   \<and> (url = [] \<longrightarrow> guess_mime_from_url L url = Inr (S ''image/jpeg''))
   \<and> (guess_type L url = Guess None \<longrightarrow> guess_mime_from_url L url = Inr (S ''image/jpeg''))
   \<and> (\<forall>mime. guess_type L url = Guess (Some mime) \<and> \<not> startswith mime (S ''image/'') \<longrightarrow>
         guess_mime_from_url L url = Inr (S ''image/jpeg''))
   \<and> (\<forall>mime. url \<noteq> [] \<and> guess_type L url = Guess (Some mime) \<and> startswith mime (S ''image/'') \<longrightarrow>
         guess_mime_from_url L url = Inr mime)
   \<and> ((url = [] \<or> guess_type L url \<noteq> GuessRaises) \<longrightarrow>
         (\<exists>m. guess_mime_from_url L url = Inr m))
   \<and> (url \<noteq> [] \<and> guess_type L url = GuessRaises \<longrightarrow>
         guess_mime_from_url L url = Inl GuessTypeError)"
proof -
  have jpeg: "startswith (S ''image/jpeg'') (S ''image/'')"
    by (simp add: startswith_def S_def)
  have nonempty: "mime \<noteq> []" if "startswith mime (S ''image/'')" for mime
    using that by (auto simp: startswith_def S_def)
  show ?thesis
    using jpeg nonempty
    by (auto simp: guess_mime_from_url_def split: guess.splits option.splits)
qed

theorem guess_mime_is_image_witness:
  "guess_mime_from_url small_lib (S ''http://h/a.pdf'') = Inr (S ''image/jpeg'')
   \<and> guess_mime_from_url small_lib (S ''http://h/a.txt'') = Inr (S ''image/jpeg'')
   \<and> guess_mime_from_url small_lib (S ''http://h/a'') = Inr (S ''image/jpeg'')
   \<and> guess_mime_from_url small_lib [] = Inr (S ''image/jpeg'')
   \<and> guess_mime_from_url small_lib (S ''http://h/a.png'') = Inr (S ''image/png'')
   \<and> guess_mime_from_url small_lib (S ''http://h]/a.png'') = Inl GuessTypeError"
proof -
  have g:
    "guess_type small_lib (S ''http://h/a.pdf'') = Guess (Some (S ''application/pdf''))"
    "guess_type small_lib (S ''http://h/a.txt'') = Guess (Some (S ''text/plain''))"
    "guess_type small_lib (S ''http://h/a'') = Guess None"
    "guess_type small_lib (S ''http://h/a.png'') = Guess (Some (S ''image/png''))"
    "guess_type small_lib (S ''http://h]/a.png'') = GuessRaises"
    by code_simp+
  have p:
    "\<not> startswith (S ''application/pdf'') (S ''image/'')"
    "\<not> startswith (S ''text/plain'') (S ''image/'')"
    "startswith (S ''image/png'') (S ''image/'')"
    by code_simp+
  have n: "S ''http://h/a.png'' \<noteq> []" "S ''http://h]/a.png'' \<noteq> []"
    by code_simp+
  have "guess_mime_from_url small_lib (S ''http://h/a.pdf'') = Inr (S ''image/jpeg'')"
    using guess_mime_is_image [of small_lib "S ''http://h/a.pdf''"] g(1) p(1) by blast
  moreover have "guess_mime_from_url small_lib (S ''http://h/a.txt'') = Inr (S ''image/jpeg'')"
    using guess_mime_is_image [of small_lib "S ''http://h/a.txt''"] g(2) p(2) by blast
  moreover have "guess_mime_from_url small_lib (S ''http://h/a'') = Inr (S ''image/jpeg'')"
    using guess_mime_is_image [of small_lib "S ''http://h/a''"] g(3) by blast
  moreover have "guess_mime_from_url small_lib [] = Inr (S ''image/jpeg'')"
    using guess_mime_is_image [of small_lib "[]"] by blast
  moreover have "guess_mime_from_url small_lib (S ''http://h/a.png'') = Inr (S ''image/png'')"
    using guess_mime_is_image [of small_lib "S ''http://h/a.png''"] g(4) p(3) n(1) by blast
  moreover have "guess_mime_from_url small_lib (S ''http://h]/a.png'') = Inl GuessTypeError"
    using guess_mime_is_image [of small_lib "S ''http://h]/a.png''"] g(5) n(2) by blast
  ultimately show ?thesis
    by blast
qed

subsection \<open>Facts about the extractor\<close>

lemma nonblank_str_is_str: "nonblank_str v \<Longrightarrow> \<exists>s. v = PStr s"
  by (cases v) simp_all

lemma scan_keys_is_str: "scan_keys d ks = Some v \<Longrightarrow> \<exists>s. v = PStr s"
  by (induction ks) (auto split: option.splits if_splits dest: nonblank_str_is_str)

lemma scan_parts_is_str: "scan_parts ps = Returned v \<Longrightarrow> \<exists>s. v = PStr s"
  by (induction ps rule: scan_parts.induct)
     (auto split: option.splits if_splits dest: nonblank_str_is_str scan_keys_is_str)

lemma try_outputs_is_str: "try_outputs L r = Returned v \<Longrightarrow> \<exists>s. v = PStr s"
  unfolding try_outputs_def Let_def
  by (auto split: option.splits if_splits list.splits attempt.splits dest: scan_parts_is_str)

lemma try_response_is_str: "try_response L r = Returned v \<Longrightarrow> \<exists>s. v = PStr s"
  unfolding try_response_def Let_def
  by (auto split: option.splits if_splits)

lemma extract_is_string:
  "(\<forall>v. try_candidates r \<noteq> Returned v) \<Longrightarrow> \<exists>s. extract_text_from_response L r = PStr s"
  unfolding extract_text_from_response_def
  by (auto split: attempt.splits dest: try_outputs_is_str try_response_is_str)

lemma until_close_first:
  "until_close s = Some g \<Longrightarrow> \<exists>pre. g = pre @ [125] \<and> 125 \<notin> set pre"
proof (induction s arbitrary: g)
  case Nil
  then show ?case by simp
next
  case (Cons c cs)
  show ?case
  proof (cases "c = 125")
    case True
    with Cons.prems have "g = [] @ [125]" by auto
    then show ?thesis by (metis empty_iff empty_set)
  next
    case False
    with Cons.prems obtain h where h: "until_close cs = Some h" "g = c # h" by auto
    with Cons.IH obtain pre where "h = pre @ [125]" "125 \<notin> set pre" by blast
    with h False have "g = (c # pre) @ [125] \<and> 125 \<notin> set (c # pre)" by simp
    then show ?thesis by blast
  qed
qed

lemma brace_search_first_close:
  "brace_search s = Some g \<Longrightarrow> \<exists>pre. g = 123 # pre @ [125] \<and> 125 \<notin> set pre"
proof (induction s arbitrary: g)
  case Nil
  then show ?case by simp
next
  case (Cons c cs)
  then show ?case
    by (auto split: if_splits option.splits dest: until_close_first)
qed

text \<open>
  The recovery function on a fenced object and on a quoted, escaped object: both are
  recovered.
\<close>

lemma recovery_examples:
  "clean_model_text_and_extract_json L (PStr fenced_text) =
     Inr (PDict [(S ''allowed'', PBool True), (S ''flags'', PDict []),
                 (S ''suggestedTags'', PList [])])"
  "clean_model_text_and_extract_json L (PStr escaped_text) =
     Inr (PDict [(S ''allowed'', PBool False), (S ''reason'', PStr (S ''uncertain'')),
                 (S ''flags'', PDict []), (S ''suggestedTags'', PList [])])"
  by code_simp+

text \<open>
  A request that the endpoint answers with a decision: the decision is the sanitized
  parsed object, and its suggested tags come from the tags in force for the request.
\<close>

lemma validate_success:
  "validate L w req = Inr out \<Longrightarrow>
     \<exists>r d. llm w = Response r
        \<and> clean_model_text_and_extract_json L (extract_text_from_response L r) = Inr (PDict d)
        \<and> out = sanitize L (effective_tags (PREDEFINED_TAGS w) (allowedTags req))
                    (extract_text_from_response L r) d"
  unfolding validate_def Let_def
  by (auto split: if_splits llm_outcome.splits sum.splits pyval.splits)

lemma validate_tags_subset:
  assumes "validate L w req = Inr out"
  shows "\<exists>ts. map_of out (S ''suggestedTags'') = Some (PList ts)
           \<and> (\<forall>x \<in> set ts. \<exists>s. x = PStr s
                 \<and> s \<in> set (effective_tags (PREDEFINED_TAGS w) (allowedTags req)))"
proof -
  from validate_success [OF assms] obtain r d where
    out: "out = sanitize L (effective_tags (PREDEFINED_TAGS w) (allowedTags req))
                  (extract_text_from_response L r) d"
    by blast
  show ?thesis
    unfolding out sanitize_suggested by (auto simp: tag_ok_iff)
qed

subsection \<open>Claims about the extractor and the recovery engine\<close>

text \<open>
  C6. The extractor is documented to return a string for every response. The first
  strategy returns the first candidate's \<open>text\<close> whenever it is a true value, without
  asking whether it is a string: for a response whose first candidate is the
  dictionary \<open>{"text": 5}\<close> the extractor returns the integer 5.
\<close>

theorem extract_returns_non_string:
  "extract_text_from_response L
     (PObj [(S ''candidates'', Some (PList [PDict [(S ''text'', PInt 5)]]))]) = PInt 5"
  by (simp add: extract_text_from_response_def try_candidates_def dict_get_def)

text \<open>
  C2. On the text \<open>Sure! Here is the result: {...} Hope that helps.\<close> the brace scan
  takes the span from the first \<open>{\<close> to the first \<open>}\<close>, which ends inside the
  embedded object after \<open>{"spam": false}\<close>; that span is no JSON, so the recovery
  function raises instead of returning the embedded object. The embedded object itself
  is valid JSON.
\<close>

theorem brace_scan_first_close:
  \<open>brace_search prose_text = Some (S ''{"allowed": true, "flags": {"spam": false}'')
   \<and> json_loads (S ''{"allowed": true, "flags": {"spam": false}'') = None
   \<and> clean_model_text_and_extract_json L (PStr prose_text)
       = Inl (ValueError (S ''Failed to parse JSON candidate: ''))
   \<and> json_loads (S ''{"allowed": true, "flags": {"spam": false}, "suggestedTags": ["Wifi"]}'')
       = Some (PDict [(S ''allowed'', PBool True),
                      (S ''flags'', PDict [(S ''spam'', PBool False)]),
                      (S ''suggestedTags'', PList [PStr (S ''Wifi'')])])\<close>
  by code_simp




text \<open>
  C7, as stated, fails. The text \<open>[]\<close> has no \<open>{\<close>, the recovery function returns the
  empty list, and the endpoint answers 500 with a detail that has no excerpt of the
  text. The text \<open>\x7b\"a\": 1}\<close> has no \<open>{\<close> either; the unescape pass makes one, and
  the recovery function returns an object.
\<close>

theorem no_brace_not_always_error:
  \<open>123 \<notin> set (S ''[]'')
   \<and> clean_model_text_and_extract_json small_lib (PStr (S ''[]'')) = Inr (PList [])
   \<and> validate small_lib (world_answering (S ''[]'')) plain_request
       = Inl (HTTPException 500 (S ''LLM returned JSON that is not an object''))
   \<and> 123 \<notin> set hex_brace_text
   \<and> clean_model_text_and_extract_json small_lib (PStr hex_brace_text)
       = Inr (PDict [(S ''a'', PInt 1)])\<close>
  by code_simp

text \<open>
  C7, amended. For every non-empty text that, after trimming, fence stripping and
  escape normalization, is no valid JSON and contains no \<open>{\<close>, the recovery function
  raises \<open>Unable to extract JSON object from model output\<close>, and the endpoint, when
  the backend is configured, the image part (if any) did not fail and the model
  returned a response with this text, answers 500 with the detail
  \<open>LLM returned non-JSON output. Raw (truncated): \<close> followed by the first 1000
  characters of the text.
\<close>

theorem unrecoverable_text:
  assumes "t \<noteq> []"
    and "json_loads (escape_normalize L (strip_fences t)) = None"
    and "123 \<notin> set (escape_normalize L (strip_fences t))"
  shows "clean_model_text_and_extract_json L (PStr t) =
           Inl (ValueError (S ''Unable to extract JSON object from model output''))
         \<and> (GENAI_CONFIGURED w \<and> \<not> image_part_fails L w req
              \<and> llm w = Response r \<and> extract_text_from_response L r = PStr t \<longrightarrow>
            validate L w req =
              Inl (HTTPException 500
                    (S ''LLM returned non-JSON output. Raw (truncated): '' @ take 1000 t)))"
proof -
  have rec: "clean_model_text_and_extract_json L (PStr t) =
               Inl (ValueError (S ''Unable to extract JSON object from model output''))"
    using assms
    by (simp add: clean_model_text_and_extract_json_def parse_or_scan_def brace_search_none)
  then show ?thesis
    by (auto simp: validate_def Let_def py_str_def)
qed

theorem unrecoverable_text_witness:
  \<open>clean_model_text_and_extract_json small_lib (PStr refusal_text) =
     Inl (ValueError (S ''Unable to extract JSON object from model output''))
   \<and> validate small_lib (world_answering refusal_text) plain_request
     = Inl (HTTPException 500
             (S ''LLM returned non-JSON output. Raw (truncated): I cannot comply with this request.''))\<close>
proof -
  have h1: "refusal_text \<noteq> []"
    by code_simp
  have h2: "json_loads (escape_normalize small_lib (strip_fences refusal_text)) = None"
    by code_simp
  have h3: "123 \<notin> set (escape_normalize small_lib (strip_fences refusal_text))"
    by code_simp
  have w: "GENAI_CONFIGURED (world_answering refusal_text)"
      "\<not> image_part_fails small_lib (world_answering refusal_text) plain_request"
      "llm (world_answering refusal_text) = Response (PStr refusal_text)"
    by (simp_all add: world_answering_def plain_request_def image_part_fails_def)
  have e: "extract_text_from_response small_lib (PStr refusal_text) = PStr refusal_text"
    by code_simp
  have c: \<open>S ''LLM returned non-JSON output. Raw (truncated): '' @ take 1000 refusal_text
           = S ''LLM returned non-JSON output. Raw (truncated): I cannot comply with this request.''\<close>
    by code_simp
  show ?thesis
    using unrecoverable_text [OF h1 h2 h3, of "world_answering refusal_text" plain_request
            "PStr refusal_text"]
    by (simp add: w e c)
qed


text \<open>
  C9. The empty string and every value that is no string are rejected with the
  message \<open>Empty or non-string model output\<close>, whatever the library routines would do:
  the result does not depend on them.
\<close>

theorem empty_or_non_string_rejected:
  "clean_model_text_and_extract_json L (PStr []) =
     Inl (ValueError (S ''Empty or non-string model output''))
   \<and> ((\<forall>t. v \<noteq> PStr t) \<longrightarrow>
        clean_model_text_and_extract_json L v =
          Inl (ValueError (S ''Empty or non-string model output'')))"
  by (cases v) (simp_all add: clean_model_text_and_extract_json_def)

theorem empty_or_non_string_rejected_witness:
  "clean_model_text_and_extract_json small_lib (PStr []) =
     Inl (ValueError (S ''Empty or non-string model output''))
   \<and> clean_model_text_and_extract_json small_lib (PInt 5) =
     Inl (ValueError (S ''Empty or non-string model output''))"
  using empty_or_non_string_rejected [of small_lib "PInt 5"] by simp


end
